theory Spec2Isabelle
  imports Main
begin

section \<open>The symbol encoder of \<open>src/ml_models/data_type_conversions.py\<close>\<close>

subsection \<open>Python strings\<close>

text \<open>
  A Python \<open>str\<close> is a sequence of Unicode code points, and \<open>len\<close> and iteration count
  code points. A character is therefore modelled by its code point, a natural number, and
  a string by the list of its code points; every Python string is such a list. The
  literals of the source are ASCII and are written through \<open>py\<close>.
\<close>

type_synonym pychar = nat
type_synonym pystr = "pychar list"

definition py :: "string \<Rightarrow> pystr" where
  "py lit = map of_char lit"

text \<open>\<open>list(s)\<close> for a string \<open>s\<close>: the list of its one-character strings.\<close>

definition list_str :: "pystr \<Rightarrow> pystr list" where
  "list_str s = map (\<lambda>c. [c]) s"

subsection \<open>The module constants (lines 12 to 21)\<close>

text \<open>
  The source names start with an underscore (\<open>_pad\<close>, \<open>_eos\<close>, \<open>_punctuation\<close>,
  \<open>_special\<close>, \<open>_letters\<close>); here they carry the prefix \<open>sym\<close>.
\<close>

definition sym_pad :: pystr where
  "sym_pad = py ''pad''"

definition sym_eos :: pystr where
  "sym_eos = py ''eos''"

definition sym_punctuation :: pystr where
  "sym_punctuation = py (''!'' @ [CHR 0x27] @ ''(),.? '')"  \<comment> \<open>\<open>CHR 0x27\<close> is the apostrophe\<close>

definition sym_special :: pystr where
  "sym_special = py ''-''"

definition sym_letters :: pystr where
  "sym_letters = py ''ABCDEFGHIJKLMNOPQRSTUVWXYZabcdefghijklmnopqrstuvwxyz''"

definition ALL_SYMBOLS :: "pystr list" where
  "ALL_SYMBOLS =
     [sym_pad] @ list_str sym_special @ list_str sym_punctuation @ list_str sym_letters @ [sym_eos]"

subsection \<open>Dictionaries and exceptions\<close>

text \<open>
  The exceptions: \<open>KeyError\<close> of a dictionary, \<open>AttributeError\<close> of an object without the
  attribute, and \<open>Exception\<close> with its class name for whatever a library call raises.
  \<open>NoObject\<close> is the outcome of following a reference to nothing; Python has no such
  reference, the heap below needs a value for it.
\<close>

datatype error = KeyError pystr | AttributeError | Exception string | NoObject

text \<open>\<open>d[k]\<close>: raises \<open>KeyError\<close> when the key is missing.\<close>

definition dict_getitem :: "(pystr \<rightharpoonup> int) \<Rightarrow> pystr \<Rightarrow> error + int" where
  "dict_getitem d k = (case d k of None \<Rightarrow> Inl (KeyError k) | Some v \<Rightarrow> Inr v)"

text \<open>\<open>d.get(k, default)\<close>, the default already evaluated.\<close>

definition dict_get :: "(pystr \<rightharpoonup> int) \<Rightarrow> pystr \<Rightarrow> int \<Rightarrow> int" where
  "dict_get d k dflt = (case d k of None \<Rightarrow> dflt | Some v \<Rightarrow> v)"

text \<open>
  \<open>{s: i for i, s in enumerate(xs)}\<close>: the pairs are stored in order into an empty
  dictionary, so a later occurrence of a key overwrites an earlier one.
\<close>

definition dict_of_enumerate :: "pystr list \<Rightarrow> (pystr \<rightharpoonup> int)" where
  "dict_of_enumerate xs =
     foldl (\<lambda>d (i, s). d(s \<mapsto> int i)) Map.empty (List.enumerate 0 xs)"

subsection \<open>class Processor (lines 23 to 28)\<close>

record Processor =
  symbol_to_id :: "pystr \<rightharpoonup> int"

text \<open>\<open>Processor()\<close>: \<open>__init__\<close> sets the one attribute from \<open>ALL_SYMBOLS\<close>.\<close>

definition Processor_init :: Processor where
  "Processor_init = \<lparr>symbol_to_id = dict_of_enumerate ALL_SYMBOLS\<rparr>"

text \<open>
  The element expression of the comprehension,
  \<open>self.symbol_to_id.get(s, self.symbol_to_id[_pad])\<close>, for one character \<open>s\<close> of the
  text. Python evaluates the argument \<open>self.symbol_to_id[_pad]\<close> before the call of
  \<open>get\<close>, so a table without the key \<open>"pad"\<close> raises \<open>KeyError\<close> at the first character.
  Iterating a string yields one-character strings: the key looked up is \<open>[s]\<close>.
\<close>

definition symbol_id :: "Processor \<Rightarrow> pychar \<Rightarrow> error + int" where
  "symbol_id self s =
     (case dict_getitem (symbol_to_id self) sym_pad of
        Inl e \<Rightarrow> Inl e
      | Inr dflt \<Rightarrow> Inr (dict_get (symbol_to_id self) [s] dflt))"

text \<open>
  \<open>text_to_sequence\<close>: the list comprehension over the characters of \<open>text\<close>, in order;
  the first exception ends it.
\<close>

fun text_to_sequence :: "Processor \<Rightarrow> pystr \<Rightarrow> error + int list" where
  "text_to_sequence self [] = Inr []"
| "text_to_sequence self (s # text) =
     (case symbol_id self s of
        Inl e \<Rightarrow> Inl e
      | Inr i \<Rightarrow>
          (case text_to_sequence self text of
             Inl e \<Rightarrow> Inl e
           | Inr ids \<Rightarrow> Inr (i # ids)))"

subsection \<open>The framing of the IDs in \<open>text_to_audio\<close> (lines 198 to 205)\<close>

text \<open>
  \<open>input_ids[:9] + [0] * (9 - len(input_ids))\<close>. A list multiplied by a negative number
  is the empty list, which \<open>nat\<close> of a negative integer gives.
\<close>

definition pad_or_truncate :: "int list \<Rightarrow> int list" where
  "pad_or_truncate input_ids =
     take 9 input_ids @ replicate (nat (9 - int (length input_ids))) 0"

text \<open>
  The first lines of \<open>text_to_audio\<close> up to the list handed to \<open>tf.constant\<close>, for
  a \<open>text\<close> that is a string (anything else raises \<open>ValueError\<close> before). The
  transliteration is a library call (\<open>GermanTransliterate\<close>) and is a parameter here; it
  stands outside the \<open>try\<close> of the function, so an exception it raises leaves
  \<open>text_to_audio\<close> and no list is built.
\<close>

definition text_to_audio_input_ids ::
  "(pystr \<Rightarrow> error + pystr) \<Rightarrow> pystr \<Rightarrow> error + int list" where
  "text_to_audio_input_ids transliterate text =
     (case transliterate text of
        Inl e \<Rightarrow> Inl e
      | Inr text' \<Rightarrow>
          (case text_to_sequence Processor_init text' of
             Inl e \<Rightarrow> Inl e
           | Inr input_ids \<Rightarrow> Inr (pad_or_truncate input_ids)))"

subsection \<open>The objects of the program and the calls that read and write them\<close>

text \<open>
  Where a property speaks of what a call leaves behind, or of several instances, the
  mutable objects of the program are a state that every operation takes and returns:
  the list object bound to the module name \<open>ALL_SYMBOLS\<close>, the dictionaries and the
  \<open>Processor\<close> instances created so far. A reference is the position of an object among
  those of its kind. An instance holds its attribute \<open>symbol_to_id\<close>, a reference to a
  dictionary, or nothing before \<open>__init__\<close> has assigned it.
\<close>

type_synonym ref = nat

record heap =
  module_ALL_SYMBOLS :: "pystr list"
  dicts :: "(pystr \<rightharpoonup> int) list"
  processors :: "ref option list"

text \<open>The state after the module body (lines 12 to 21) has run: no dictionary, no instance.\<close>

definition module_heap :: heap where
  "module_heap = \<lparr>module_ALL_SYMBOLS = ALL_SYMBOLS, dicts = [], processors = []\<rparr>"

text \<open>
  A computation takes the heap and gives an exception or a value, and the heap it
  leaves. \<open>py_bind\<close> is sequencing: an exception of the first part ends the whole.
\<close>

type_synonym 'a py = "heap \<Rightarrow> (error + 'a) \<times> heap"

definition py_return :: "'a \<Rightarrow> 'a py" where
  "py_return x h = (Inr x, h)"

definition py_bind :: "'a py \<Rightarrow> ('a \<Rightarrow> 'b py) \<Rightarrow> 'b py" where
  "py_bind m f h = (case m h of (Inl e, h') \<Rightarrow> (Inl e, h') | (Inr x, h') \<Rightarrow> f x h')"

text \<open>The operations on objects that the class uses, each with the effect Python gives it.\<close>

definition load_ALL_SYMBOLS :: "pystr list py" where
  \<comment> \<open>the elements of the list object behind the global name\<close>
  "load_ALL_SYMBOLS h = (Inr (module_ALL_SYMBOLS h), h)"

definition new_dict :: "(pystr \<rightharpoonup> int) \<Rightarrow> ref py" where
  \<comment> \<open>a dictionary display or comprehension: a new object\<close>
  "new_dict d h = (Inr (length (dicts h)), h\<lparr>dicts := dicts h @ [d]\<rparr>)"

definition new_instance :: "ref py" where
  \<comment> \<open>the allocation of \<open>Processor()\<close>, before \<open>__init__\<close>\<close>
  "new_instance h = (Inr (length (processors h)), h\<lparr>processors := processors h @ [None]\<rparr>)"

definition store_symbol_to_id :: "ref \<Rightarrow> ref \<Rightarrow> unit py" where
  \<comment> \<open>\<open>self.symbol_to_id = d\<close>\<close>
  "store_symbol_to_id self d h =
     (if self < length (processors h)
      then (Inr (), h\<lparr>processors := (processors h)[self := Some d]\<rparr>)
      else (Inl NoObject, h))"

definition load_symbol_to_id :: "ref \<Rightarrow> ref py" where
  \<comment> \<open>\<open>self.symbol_to_id\<close>\<close>
  "load_symbol_to_id self h =
     (if self < length (processors h)
      then (case processors h ! self of
              None \<Rightarrow> (Inl AttributeError, h)
            | Some d \<Rightarrow> (Inr d, h))
      else (Inl NoObject, h))"

definition dict_getitem_at :: "ref \<Rightarrow> pystr \<Rightarrow> int py" where
  \<comment> \<open>\<open>d[k]\<close> on the dictionary object behind \<open>d\<close>\<close>
  "dict_getitem_at d k h =
     (if d < length (dicts h) then (dict_getitem (dicts h ! d) k, h) else (Inl NoObject, h))"

definition dict_get_at :: "ref \<Rightarrow> pystr \<Rightarrow> int \<Rightarrow> int py" where
  \<comment> \<open>\<open>d.get(k, dflt)\<close> on the dictionary object behind \<open>d\<close>\<close>
  "dict_get_at d k dflt h =
     (if d < length (dicts h) then (Inr (dict_get (dicts h ! d) k dflt), h)
      else (Inl NoObject, h))"

text \<open>
  \<open>__init__\<close> (line 25): the comprehension reads the list behind \<open>ALL_SYMBOLS\<close> and
  builds a new dictionary, which the assignment stores in the instance.
\<close>

definition Processor_init_on :: "ref \<Rightarrow> unit py" where
  "Processor_init_on self =
     py_bind load_ALL_SYMBOLS (\<lambda>xs.
     py_bind (new_dict (dict_of_enumerate xs)) (\<lambda>d.
     store_symbol_to_id self d))"

text \<open>\<open>Processor()\<close>: allocate the instance, run \<open>__init__\<close> on it, return it.\<close>

definition Processor_new :: "ref py" where
  "Processor_new =
     py_bind new_instance (\<lambda>self.
     py_bind (Processor_init_on self) (\<lambda>_.
     py_return self))"

text \<open>
  The element expression of line 28 on an instance in the heap, in Python's order of
  evaluation: the receiver \<open>self.symbol_to_id\<close>, then the argument
  \<open>self.symbol_to_id[_pad]\<close>, then the call of \<open>get\<close>.
\<close>

definition symbol_id_of :: "ref \<Rightarrow> pychar \<Rightarrow> int py" where
  "symbol_id_of self s =
     py_bind (load_symbol_to_id self) (\<lambda>d.
     py_bind (load_symbol_to_id self) (\<lambda>d'.
     py_bind (dict_getitem_at d' sym_pad) (\<lambda>dflt.
     dict_get_at d [s] dflt)))"

text \<open>\<open>text_to_sequence\<close> called on an instance in the heap.\<close>

fun text_to_sequence_of :: "ref \<Rightarrow> pystr \<Rightarrow> int list py" where
  "text_to_sequence_of self [] = py_return []"
| "text_to_sequence_of self (s # text) =
     py_bind (symbol_id_of self s) (\<lambda>i.
     py_bind (text_to_sequence_of self text) (\<lambda>ids.
     py_return (i # ids)))"

text \<open>The symbol table of an instance, read off the heap.\<close>

definition table_of :: "heap \<Rightarrow> ref \<Rightarrow> (pystr \<rightharpoonup> int) option" where
  "table_of h self =
     (if self < length (processors h)
      then (case processors h ! self of
              None \<Rightarrow> None
            | Some d \<Rightarrow> (if d < length (dicts h) then Some (dicts h ! d) else None))
      else None)"

section \<open>Properties\<close>

subsection \<open>The dictionary built from an enumeration\<close>

lemmas vocabulary_defs =
  ALL_SYMBOLS_def sym_pad_def sym_eos_def sym_punctuation_def sym_special_def
  sym_letters_def py_def list_str_def

lemma dict_of_enumerate_Nil: "dict_of_enumerate [] = Map.empty"
  by (simp add: dict_of_enumerate_def)

lemma dict_of_enumerate_snoc:
  "dict_of_enumerate (xs @ [x]) = (dict_of_enumerate xs)(x \<mapsto> int (length xs))"
  by (simp add: dict_of_enumerate_def enumerate_append_eq)

lemma dom_dict_of_enumerate: "dom (dict_of_enumerate xs) = set xs"
proof (induction xs rule: rev_induct)
  case Nil
  show ?case by (simp add: dict_of_enumerate_Nil)
next
  case (snoc x xs)
  have "dom (dict_of_enumerate (xs @ [x])) = insert x (dom (dict_of_enumerate xs))"
    by (subst dict_of_enumerate_snoc) simp
  with snoc.IH show ?case by simp
qed

lemma dict_of_enumerate_SomeD:
  "dict_of_enumerate xs s = Some v \<Longrightarrow> \<exists>i<length xs. v = int i \<and> xs ! i = s"
proof (induction xs arbitrary: v rule: rev_induct)
  case Nil
  then show ?case by (simp add: dict_of_enumerate_Nil)
next
  case (snoc x xs)
  show ?case
  proof (cases "s = x")
    case True
    with snoc.prems have "v = int (length xs)"
      by (simp add: dict_of_enumerate_snoc)
    with True show ?thesis by auto
  next
    case False
    with snoc.prems have "dict_of_enumerate xs s = Some v"
      by (simp add: dict_of_enumerate_snoc)
    then obtain i where "i < length xs" "v = int i" "xs ! i = s"
      using snoc.IH by blast
    then show ?thesis by (auto simp: nth_append)
  qed
qed

lemma dict_of_enumerate_nth:
  assumes "distinct xs" and "i < length xs"
  shows "dict_of_enumerate xs (xs ! i) = Some (int i)"
proof -
  from assms(2) have "xs ! i \<in> dom (dict_of_enumerate xs)"
    by (simp add: dom_dict_of_enumerate)
  then obtain v where v: "dict_of_enumerate xs (xs ! i) = Some v" by blast
  then obtain j where j: "j < length xs" "v = int j" "xs ! j = xs ! i"
    using dict_of_enumerate_SomeD by blast
  with assms have "j = i" by (simp add: nth_eq_iff_index_eq)
  with v j show ?thesis by simp
qed

lemma length_ALL_SYMBOLS: "length ALL_SYMBOLS = 63"
  by (simp add: vocabulary_defs)

lemma distinct_ALL_SYMBOLS: "distinct ALL_SYMBOLS"
  by (simp add: vocabulary_defs)

lemma ALL_SYMBOLS_first: "ALL_SYMBOLS ! 0 = sym_pad"
  by (simp add: ALL_SYMBOLS_def)

lemma ALL_SYMBOLS_last: "ALL_SYMBOLS ! 62 = sym_eos"
  by (simp add: vocabulary_defs)

lemma id_of_pad: "symbol_to_id Processor_init sym_pad = Some 0"
  using dict_of_enumerate_nth [OF distinct_ALL_SYMBOLS, of 0]
  by (simp add: Processor_init_def length_ALL_SYMBOLS ALL_SYMBOLS_first)

lemma id_of_eos: "symbol_to_id Processor_init sym_eos = Some 62"
  using dict_of_enumerate_nth [OF distinct_ALL_SYMBOLS, of 62]
  by (simp add: Processor_init_def length_ALL_SYMBOLS ALL_SYMBOLS_last)

lemma id_of_nth:
  "i < length ALL_SYMBOLS \<Longrightarrow> symbol_to_id Processor_init (ALL_SYMBOLS ! i) = Some (int i)"
  by (simp add: Processor_init_def dict_of_enumerate_nth distinct_ALL_SYMBOLS)

lemma id_SomeD:
  "symbol_to_id Processor_init s = Some v \<Longrightarrow>
     \<exists>i<length ALL_SYMBOLS. v = int i \<and> ALL_SYMBOLS ! i = s"
  by (simp add: Processor_init_def dict_of_enumerate_SomeD)

lemma id_None_iff: "symbol_to_id Processor_init s = None \<longleftrightarrow> s \<notin> set ALL_SYMBOLS"
proof -
  have "symbol_to_id Processor_init s = None \<longleftrightarrow> s \<notin> dom (dict_of_enumerate ALL_SYMBOLS)"
    by (simp add: Processor_init_def domIff)
  then show ?thesis by (simp add: dom_dict_of_enumerate)
qed

lemma symbol_id_init:
  "symbol_id Processor_init c = Inr (dict_get (symbol_to_id Processor_init) [c] 0)"
  by (simp add: symbol_id_def dict_getitem_def id_of_pad)

lemma text_to_sequence_init:
  "text_to_sequence Processor_init text =
     Inr (map (\<lambda>c. dict_get (symbol_to_id Processor_init) [c] 0) text)"
  by (induction "text") (simp_all add: symbol_id_init)

lemma singleton_not_pad: "[c] \<noteq> sym_pad"
  by (simp add: sym_pad_def py_def)

lemma singleton_not_eos: "[c] \<noteq> sym_eos"
  by (simp add: sym_eos_def py_def)

subsection \<open>The ID of one character\<close>

lemma dict_get_init_cases:
  "(k \<notin> set ALL_SYMBOLS \<and> dict_get (symbol_to_id Processor_init) k 0 = 0) \<or>
   (\<exists>i<length ALL_SYMBOLS. ALL_SYMBOLS ! i = k \<and>
      dict_get (symbol_to_id Processor_init) k 0 = int i)"
proof (cases "symbol_to_id Processor_init k")
  case None
  then show ?thesis by (simp add: dict_get_def id_None_iff [symmetric])
next
  case (Some v)
  then obtain i where "i < length ALL_SYMBOLS" "v = int i" "ALL_SYMBOLS ! i = k"
    using id_SomeD by blast
  with Some show ?thesis by (auto simp: dict_get_def)
qed

lemma char_id_range:
  "0 \<le> dict_get (symbol_to_id Processor_init) k 0 \<and>
   dict_get (symbol_to_id Processor_init) k 0 < 63"
  using dict_get_init_cases [of k] by (auto simp: length_ALL_SYMBOLS)

lemma char_id_zero_iff:
  "dict_get (symbol_to_id Processor_init) [c] 0 = 0 \<longleftrightarrow> [c] \<notin> set ALL_SYMBOLS"
proof
  assume z: "dict_get (symbol_to_id Processor_init) [c] 0 = 0"
  show "[c] \<notin> set ALL_SYMBOLS"
  proof
    assume "[c] \<in> set ALL_SYMBOLS"
    with dict_get_init_cases [of "[c]"] z
    obtain i where "ALL_SYMBOLS ! i = [c]" "int i = 0" by auto
    then have "sym_pad = [c]" by (simp add: ALL_SYMBOLS_first)
    then show False using singleton_not_pad [of c] by simp
  qed
next
  assume "[c] \<notin> set ALL_SYMBOLS"
  then have "symbol_to_id Processor_init [c] = None" by (simp add: id_None_iff)
  then show "dict_get (symbol_to_id Processor_init) [c] 0 = 0" by (simp add: dict_get_def)
qed

lemma char_id_not_eos: "dict_get (symbol_to_id Processor_init) [c] 0 \<noteq> 62"
proof
  assume e: "dict_get (symbol_to_id Processor_init) [c] 0 = 62"
  with dict_get_init_cases [of "[c]"]
  obtain i where "ALL_SYMBOLS ! i = [c]" "int i = 62" by auto
  then have "ALL_SYMBOLS ! 62 = [c]" by simp
  then show False using singleton_not_eos [of c] by (simp add: ALL_SYMBOLS_last)
qed

subsection \<open>The symbol table of a constructed Processor\<close>

lemma id_of_member:
  assumes "s \<in> set ALL_SYMBOLS"
  shows "\<exists>i<length ALL_SYMBOLS. symbol_to_id Processor_init s = Some (int i) \<and> ALL_SYMBOLS ! i = s"
proof -
  from assms obtain i where "i < length ALL_SYMBOLS" "ALL_SYMBOLS ! i = s"
    by (auto simp: in_set_conv_nth)
  with id_of_nth [of i] show ?thesis by auto
qed

lemma inj_on_symbol_to_id: "inj_on (symbol_to_id Processor_init) (set ALL_SYMBOLS)"
proof (rule inj_onI)
  fix s t
  assume s: "s \<in> set ALL_SYMBOLS" and t: "t \<in> set ALL_SYMBOLS"
    and eq: "symbol_to_id Processor_init s = symbol_to_id Processor_init t"
  from id_of_member [OF s] obtain i where
    i: "symbol_to_id Processor_init s = Some (int i)" "ALL_SYMBOLS ! i = s" by blast
  from id_of_member [OF t] obtain j where
    j: "symbol_to_id Processor_init t = Some (int j)" "ALL_SYMBOLS ! j = t" by blast
  from eq i j have "i = j" by simp
  with i j show "s = t" by simp
qed

subsection \<open>The framing\<close>

lemma length_pad_or_truncate: "length (pad_or_truncate ids) = 9"
  by (simp add: pad_or_truncate_def)

subsection \<open>Construction and calls on the heap\<close>

lemma Processor_new_result:
  "Processor_new h =
     (Inr (length (processors h)),
      h\<lparr>dicts := dicts h @ [dict_of_enumerate (module_ALL_SYMBOLS h)],
        processors := processors h @ [Some (length (dicts h))]\<rparr>)"
  by (simp add: Processor_new_def Processor_init_on_def py_bind_def py_return_def
      new_instance_def load_ALL_SYMBOLS_def new_dict_def store_symbol_to_id_def)

lemma symbol_id_of_reads:
  assumes "table_of h self = Some d"
  shows "symbol_id_of self s h = (symbol_id \<lparr>symbol_to_id = d\<rparr> s, h)"
proof -
  from assms obtain r where r: "self < length (processors h)" "processors h ! self = Some r"
    "r < length (dicts h)" "dicts h ! r = d"
    by (auto simp: table_of_def split: if_splits option.splits)
  then show ?thesis
    by (simp add: symbol_id_of_def symbol_id_def py_bind_def load_symbol_to_id_def
        dict_getitem_at_def dict_get_at_def split: sum.splits)
qed

lemma text_to_sequence_of_reads:
  assumes "table_of h self = Some d"
  shows "text_to_sequence_of self text h = (text_to_sequence \<lparr>symbol_to_id = d\<rparr> text, h)"
proof (induction "text")
  case Nil
  show ?case by (simp add: py_return_def)
next
  case (Cons s rest)
  then show ?case
    by (simp add: py_bind_def py_return_def symbol_id_of_reads [OF assms] split: sum.splits)
qed

lemma table_of_new:
  "table_of (snd (Processor_new h)) (length (processors h))
     = Some (dict_of_enumerate (module_ALL_SYMBOLS h))"
  by (simp add: Processor_new_result table_of_def nth_append)

lemma table_of_kept:
  "table_of h self = Some d \<Longrightarrow> table_of (snd (Processor_new h)) self = Some d"
  by (auto simp: Processor_new_result table_of_def nth_append split: if_splits option.splits)

section \<open>The claims\<close>

text \<open>
  Claim C1. A character that is a symbol of the vocabulary is encoded by its position:
  when the one-character string \<open>[c]\<close> stands at position \<open>i\<close> of \<open>ALL_SYMBOLS\<close>,
  encoding \<open>[c]\<close> returns the one-element list \<open>[i]\<close>.
\<close>

theorem encode_vocabulary_char:
  assumes "i < length ALL_SYMBOLS" and "ALL_SYMBOLS ! i = [c]"
  shows "text_to_sequence Processor_init [c] = Inr [int i]"
proof -
  from assms have "symbol_to_id Processor_init [c] = Some (int i)"
    using id_of_nth [of i] by simp
  then show ?thesis
    by (simp add: text_to_sequence_init dict_get_def del: text_to_sequence.simps)
qed

theorem encode_vocabulary_char_witness:
  "(10::nat) < length ALL_SYMBOLS \<and> ALL_SYMBOLS ! 10 = py ''A'' \<and>
   text_to_sequence Processor_init (py ''A'') = Inr [10]"
proof -
  have h1: "(10::nat) < length ALL_SYMBOLS" by (simp add: length_ALL_SYMBOLS)
  have h2: "ALL_SYMBOLS ! 10 = [of_char CHR ''A'']" by (simp add: vocabulary_defs)
  from encode_vocabulary_char [OF h1 h2] h1 h2 show ?thesis by (simp add: py_def)
qed

text \<open>
  Claim C2. The encoder is total and maps every character outside the vocabulary to 0,
  the ID of the padding sentinel: encoding a one-character string whose character is not
  a symbol returns \<open>[0]\<close>; encoding any text returns a list (no exception), with one ID
  for each character, and the ID is 0 at every position that holds a character outside
  the vocabulary.
\<close>

theorem encode_total_oov_to_pad:
  "symbol_to_id Processor_init sym_pad = Some 0 \<and>
   ([c] \<notin> set ALL_SYMBOLS \<longrightarrow> text_to_sequence Processor_init [c] = Inr [0]) \<and>
   (\<exists>ids. text_to_sequence Processor_init text = Inr ids \<and> length ids = length text \<and>
      (\<forall>i<length text. [text ! i] \<notin> set ALL_SYMBOLS \<longrightarrow> ids ! i = 0))"
  by (simp add: id_of_pad text_to_sequence_init char_id_zero_iff del: text_to_sequence.simps)

theorem encode_total_oov_to_pad_witness:
  "py ''1'' \<notin> set ALL_SYMBOLS \<and> text_to_sequence Processor_init (py ''1'') = Inr [0] \<and>
   (\<exists>ids. text_to_sequence Processor_init (py ''Z1'') = Inr ids \<and> ids ! 1 = 0)"
proof -
  have h: "[of_char CHR ''1''] \<notin> set ALL_SYMBOLS" by (simp add: vocabulary_defs)
  have t: "py ''Z1'' ! 1 = of_char CHR ''1''" "(1::nat) < length (py ''Z1'')"
    by (simp_all add: py_def)
  from encode_total_oov_to_pad [of "of_char CHR ''1''" "py ''Z1''"] h t
  show ?thesis by (auto simp: py_def)
qed

text \<open>
  Claim C3. The encoded list is as long as the text, and the empty text is encoded by
  the empty list.
\<close>

theorem encode_length:
  "(\<exists>ids. text_to_sequence Processor_init s = Inr ids \<and> length ids = length s) \<and>
   text_to_sequence Processor_init [] = Inr []"
  by (simp add: text_to_sequence_init del: text_to_sequence.simps)

text \<open>
  Claim C4. The framing in \<open>text_to_audio\<close> always yields a list of exactly 9 IDs: a list
  of 9 or more IDs is cut to its first 9, and a shorter list is extended by trailing
  zeros (the padding ID) up to length 9. In \<open>text_to_audio\<close> the list handed to the speech
  model has length 9 whenever the transliteration returns a text; when the
  transliteration raises, its exception is the outcome.
\<close>

theorem framing_length_nine:
  "length (pad_or_truncate ids) = 9 \<and>
   (9 \<le> length ids \<longrightarrow> pad_or_truncate ids = take 9 ids) \<and>
   (length ids \<le> 9 \<longrightarrow> pad_or_truncate ids = ids @ replicate (9 - length ids) 0) \<and>
   (transliterate text = Inr text' \<longrightarrow>
      (\<exists>input_ids. text_to_audio_input_ids transliterate text = Inr input_ids \<and>
         length input_ids = 9)) \<and>
   (transliterate text = Inl e \<longrightarrow> text_to_audio_input_ids transliterate text = Inl e)"
proof -
  have "transliterate text = Inr text' \<longrightarrow>
      (\<exists>input_ids. text_to_audio_input_ids transliterate text = Inr input_ids \<and>
         length input_ids = 9)"
    by (simp add: text_to_audio_input_ids_def text_to_sequence_init length_pad_or_truncate)
  moreover have "transliterate text = Inl e \<longrightarrow>
      text_to_audio_input_ids transliterate text = Inl e"
    by (simp add: text_to_audio_input_ids_def)
  moreover have "length ids \<le> 9 \<Longrightarrow> nat (9 - int (length ids)) = 9 - length ids"
    by simp
  ultimately show ?thesis
    by (simp add: pad_or_truncate_def)
qed

theorem framing_length_nine_witness:
  "pad_or_truncate [1, 2, 3, 4, 5, 6, 7, 8, 9, 10, 11, 12] = [1, 2, 3, 4, 5, 6, 7, 8, 9] \<and>
   pad_or_truncate [1, 2, 3, 4, 5] = [1, 2, 3, 4, 5, 0, 0, 0, 0] \<and>
   (\<exists>input_ids. text_to_audio_input_ids Inr (py ''Z1'') = Inr input_ids \<and>
      length input_ids = 9) \<and>
   text_to_audio_input_ids (\<lambda>t. Inl (Exception ''OverflowError'')) (py ''Z1'')
     = Inl (Exception ''OverflowError'')"
proof -
  have l: "(9::nat) \<le> length [1, 2, 3, 4, 5, 6, 7, 8, 9, 10, 11, 12::int]" by simp
  have s: "length [1, 2, 3, 4, 5::int] \<le> 9" by simp
  have r: "(Inr :: pystr \<Rightarrow> error + pystr) (py ''Z1'') = Inr (py ''Z1'')" by simp
  have x: "(\<lambda>t::pystr. (Inl (Exception ''OverflowError'') :: error + pystr)) (py ''Z1'')
             = Inl (Exception ''OverflowError'')"
    by simp
  from framing_length_nine [of "[1, 2, 3, 4, 5, 6, 7, 8, 9, 10, 11, 12]"] l
  have a: "pad_or_truncate [1, 2, 3, 4, 5, 6, 7, 8, 9, 10, 11, 12]
             = take 9 [1, 2, 3, 4, 5, 6, 7, 8, 9, 10, 11, 12]"
    by blast
  from framing_length_nine [of "[1, 2, 3, 4, 5]"] s
  have b: "pad_or_truncate [1, 2, 3, 4, 5]
             = [1, 2, 3, 4, 5] @ replicate (9 - length [1, 2, 3, 4, 5::int]) 0"
    by blast
  from framing_length_nine [of "[]" Inr "py ''Z1''" "py ''Z1''"] r
  have c: "\<exists>input_ids. text_to_audio_input_ids Inr (py ''Z1'') = Inr input_ids \<and>
      length input_ids = 9"
    by blast
  from framing_length_nine
         [of "[]" "\<lambda>t. Inl (Exception ''OverflowError'')" "py ''Z1''" _ "Exception ''OverflowError''"] x
  have d: "text_to_audio_input_ids (\<lambda>t. Inl (Exception ''OverflowError'')) (py ''Z1'')
     = Inl (Exception ''OverflowError'')"
    by blast
  have n: "replicate (9 - length [1, 2, 3, 4, 5::int]) (0::int) = [0, 0, 0, 0]"
    by (simp add: numeral_eq_Suc)
  from a b c d n show ?thesis by (simp add: take_Cons')
qed

text \<open>
  Claim C5. In the vocabulary the padding sentinel stands at position 0, the hyphen at 1,
  the eight punctuation and space characters at positions 2 to 9, \<open>A\<close> at 10 and \<open>Z\<close>
  at 35; encoding \<open>"A"\<close> returns \<open>[10]\<close> and encoding \<open>"Z1"\<close> returns \<open>[35, 0]\<close>.
\<close>

theorem encode_scenarios:
  "ALL_SYMBOLS ! 0 = sym_pad \<and> ALL_SYMBOLS ! 1 = py ''-'' \<and>
   map (\<lambda>i. ALL_SYMBOLS ! i) [2..<10] = list_str sym_punctuation \<and>
   ALL_SYMBOLS ! 10 = py ''A'' \<and> ALL_SYMBOLS ! 35 = py ''Z'' \<and>
   text_to_sequence Processor_init (py ''A'') = Inr [10] \<and>
   text_to_sequence Processor_init (py ''Z1'') = Inr [35, 0]"
proof -
  have v: "ALL_SYMBOLS ! 0 = sym_pad" "ALL_SYMBOLS ! 1 = py ''-''"
    "ALL_SYMBOLS ! 10 = py ''A''" "ALL_SYMBOLS ! 35 = py ''Z''"
    by (simp_all add: vocabulary_defs)
  have p: "map (\<lambda>i. ALL_SYMBOLS ! i) [2..<10] = list_str sym_punctuation"
    by (simp add: vocabulary_defs upt_rec)
  have "symbol_to_id Processor_init (py ''A'') = Some 10"
    using id_of_nth [of 10] v by (simp add: length_ALL_SYMBOLS)
  then have a: "dict_get (symbol_to_id Processor_init) (py ''A'') 0 = 10"
    by (simp add: dict_get_def)
  have "symbol_to_id Processor_init (py ''Z'') = Some 35"
    using id_of_nth [of 35] v by (simp add: length_ALL_SYMBOLS)
  then have z: "dict_get (symbol_to_id Processor_init) (py ''Z'') 0 = 35"
    by (simp add: dict_get_def)
  have "py ''1'' \<notin> set ALL_SYMBOLS" by (simp add: vocabulary_defs)
  then have "symbol_to_id Processor_init (py ''1'') = None" by (simp add: id_None_iff)
  then have o: "dict_get (symbol_to_id Processor_init) (py ''1'') 0 = 0"
    by (simp add: dict_get_def)
  have s: "py ''A'' = [of_char CHR ''A'']" "py ''Z'' = [of_char CHR ''Z'']"
    "py ''1'' = [of_char CHR ''1'']"
    "py ''Z1'' = [of_char CHR ''Z'', of_char CHR ''1'']"
    by (simp_all add: py_def)
  have "text_to_sequence Processor_init (py ''A'') = Inr [10]"
    using a unfolding s text_to_sequence_init by simp
  moreover have "text_to_sequence Processor_init (py ''Z1'') = Inr [35, 0]"
    using z o unfolding s text_to_sequence_init by simp
  ultimately show ?thesis using v p by simp
qed

text \<open>
  Claim C6. Every ID of an encoded text is a valid index into the vocabulary: at each
  position it is at least 0 and less than the number of symbols.
\<close>

theorem encode_ids_in_range:
  "\<exists>ids. text_to_sequence Processor_init s = Inr ids \<and>
     (\<forall>i<length s. 0 \<le> ids ! i \<and> ids ! i < int (length ALL_SYMBOLS))"
  by (simp add: text_to_sequence_init char_id_range length_ALL_SYMBOLS)

theorem encode_ids_in_range_witness:
  "\<exists>ids. text_to_sequence Processor_init (py ''Z1'') = Inr ids \<and>
     0 \<le> ids ! 0 \<and> ids ! 0 < int (length ALL_SYMBOLS) \<and>
     0 \<le> ids ! 1 \<and> ids ! 1 < int (length ALL_SYMBOLS)"
proof -
  have l: "(0::nat) < length (py ''Z1'')" "(1::nat) < length (py ''Z1'')"
    by (simp_all add: py_def)
  from encode_ids_in_range [of "py ''Z1''"] l show ?thesis by blast
qed

text \<open>
  Claim C7. The symbol table is one-to-one on the vocabulary: \<open>ALL_SYMBOLS\<close> has no
  duplicate, the keys of the table are exactly the symbols, distinct symbols have
  distinct IDs, and the ID of a symbol is a position of the vocabulary at which that
  same symbol stands.
\<close>

theorem symbol_to_id_one_to_one:
  "distinct ALL_SYMBOLS \<and>
   dom (symbol_to_id Processor_init) = set ALL_SYMBOLS \<and>
   inj_on (symbol_to_id Processor_init) (set ALL_SYMBOLS) \<and>
   (\<forall>s\<in>set ALL_SYMBOLS. \<exists>i<length ALL_SYMBOLS.
      symbol_to_id Processor_init s = Some (int i) \<and> ALL_SYMBOLS ! i = s)"
proof -
  have "dom (symbol_to_id Processor_init) = set ALL_SYMBOLS"
    by (simp add: Processor_init_def dom_dict_of_enumerate)
  with distinct_ALL_SYMBOLS inj_on_symbol_to_id id_of_member show ?thesis
    by blast
qed

theorem symbol_to_id_one_to_one_witness:
  "py ''A'' \<in> set ALL_SYMBOLS \<and> sym_eos \<in> set ALL_SYMBOLS \<and> py ''A'' \<noteq> sym_eos \<and>
   symbol_to_id Processor_init (py ''A'') \<noteq> symbol_to_id Processor_init sym_eos \<and>
   (\<exists>i<length ALL_SYMBOLS.
      symbol_to_id Processor_init (py ''A'') = Some (int i) \<and> ALL_SYMBOLS ! i = py ''A'')"
proof -
  have m: "py ''A'' \<in> set ALL_SYMBOLS" "sym_eos \<in> set ALL_SYMBOLS"
    by (simp_all add: vocabulary_defs)
  have n: "py ''A'' \<noteq> sym_eos" by (simp add: sym_eos_def py_def)
  from symbol_to_id_one_to_one m n
  have "symbol_to_id Processor_init (py ''A'') \<noteq> symbol_to_id Processor_init sym_eos"
    by (auto dest: inj_onD)
  with symbol_to_id_one_to_one m n show ?thesis by blast
qed

text \<open>
  Claim C8. Construction and encoding are deterministic and change no existing state.
  From any state in which the list behind \<open>ALL_SYMBOLS\<close> is as the module built it, two
  evaluations of \<open>Processor()\<close> succeed and give two different instances whose symbol
  tables are the same dictionary contents, the first table untouched by the second
  construction, and the list behind \<open>ALL_SYMBOLS\<close> is as before; each construction
  does change the heap, by the objects it adds. Encoding a text through
  the first instance (before or after the second exists), through the second, or twice
  in a row returns the same list, the one \<open>text_to_sequence\<close> computes on the
  constructed table, and each call leaves the heap exactly as it found it.
\<close>

theorem encode_deterministic_pure:
  assumes "module_ALL_SYMBOLS h = ALL_SYMBOLS"
  shows "\<exists>p q h1 h2 ids.
     Processor_new h = (Inr p, h1) \<and> Processor_new h1 = (Inr q, h2) \<and> p \<noteq> q \<and>
     h1 \<noteq> h \<and> h2 \<noteq> h1 \<and>
     table_of h1 p = Some (dict_of_enumerate ALL_SYMBOLS) \<and>
     table_of h2 p = Some (dict_of_enumerate ALL_SYMBOLS) \<and>
     table_of h2 q = Some (dict_of_enumerate ALL_SYMBOLS) \<and>
     module_ALL_SYMBOLS h2 = ALL_SYMBOLS \<and>
     text_to_sequence Processor_init text = Inr ids \<and>
     text_to_sequence_of p text h1 = (Inr ids, h1) \<and>
     text_to_sequence_of p text h2 = (Inr ids, h2) \<and>
     text_to_sequence_of q text h2 = (Inr ids, h2) \<and>
     py_bind (text_to_sequence_of p text) (\<lambda>a.
       py_bind (text_to_sequence_of p text) (\<lambda>b. py_return (a, b))) h2
       = (Inr (ids, ids), h2)"
proof -
  define p where "p = length (processors h)"
  define h1 where "h1 = snd (Processor_new h)"
  define q where "q = length (processors h1)"
  define h2 where "h2 = snd (Processor_new h1)"
  define ids where "ids = map (\<lambda>c. dict_get (symbol_to_id Processor_init) [c] 0) text"
  have n1: "Processor_new h = (Inr p, h1)"
    by (simp add: p_def h1_def Processor_new_result)
  have n2: "Processor_new h1 = (Inr q, h2)"
    by (simp add: q_def h2_def Processor_new_result)
  have v1: "module_ALL_SYMBOLS h1 = ALL_SYMBOLS"
    using assms by (simp add: h1_def Processor_new_result)
  have v2: "module_ALL_SYMBOLS h2 = ALL_SYMBOLS"
    using v1 by (simp add: h2_def Processor_new_result)
  have d: "p \<noteq> q"
    by (simp add: p_def q_def h1_def Processor_new_result)
  have "length (processors h1) \<noteq> length (processors h)"
    by (simp add: h1_def Processor_new_result)
  then have g1: "h1 \<noteq> h" by auto
  have "length (processors h2) \<noteq> length (processors h1)"
    by (simp add: h2_def Processor_new_result)
  then have g2: "h2 \<noteq> h1" by auto
  have t1: "table_of h1 p = Some (dict_of_enumerate ALL_SYMBOLS)"
    using table_of_new [of h] assms by (simp add: p_def h1_def)
  have t2: "table_of h2 p = Some (dict_of_enumerate ALL_SYMBOLS)"
    using table_of_kept [OF t1] by (simp add: h2_def)
  have t3: "table_of h2 q = Some (dict_of_enumerate ALL_SYMBOLS)"
    using table_of_new [of h1] v1 by (simp add: q_def h2_def)
  have e: "text_to_sequence \<lparr>symbol_to_id = dict_of_enumerate ALL_SYMBOLS\<rparr> text = Inr ids"
    using text_to_sequence_init [of "text"] by (simp add: ids_def Processor_init_def)
  then have e': "text_to_sequence Processor_init text = Inr ids"
    by (simp add: Processor_init_def)
  have c1: "text_to_sequence_of p text h1 = (Inr ids, h1)"
    using text_to_sequence_of_reads [OF t1] e by simp
  have c2: "text_to_sequence_of p text h2 = (Inr ids, h2)"
    using text_to_sequence_of_reads [OF t2] e by simp
  have c3: "text_to_sequence_of q text h2 = (Inr ids, h2)"
    using text_to_sequence_of_reads [OF t3] e by simp
  have c4: "py_bind (text_to_sequence_of p text) (\<lambda>a.
       py_bind (text_to_sequence_of p text) (\<lambda>b. py_return (a, b))) h2
       = (Inr (ids, ids), h2)"
    by (simp add: py_bind_def py_return_def c2)
  from n1 n2 d g1 g2 t1 t2 t3 v2 e' c1 c2 c3 c4 show ?thesis by blast
qed

theorem encode_deterministic_pure_witness:
  "module_ALL_SYMBOLS module_heap = ALL_SYMBOLS \<and>
   (\<exists>p q h1 h2.
      Processor_new module_heap = (Inr p, h1) \<and> Processor_new h1 = (Inr q, h2) \<and> p \<noteq> q \<and>
      table_of h2 p = table_of h2 q \<and>
      text_to_sequence_of p (py ''Z1'') h2 = (Inr [35, 0], h2) \<and>
      text_to_sequence_of q (py ''Z1'') h2 = (Inr [35, 0], h2))"
proof -
  have m: "module_ALL_SYMBOLS module_heap = ALL_SYMBOLS"
    by (simp add: module_heap_def)
  have z: "text_to_sequence Processor_init (py ''Z1'') = Inr [35, 0]"
    by (simp add: vocabulary_defs Processor_init_def dict_of_enumerate_def symbol_id_def
        dict_get_def dict_getitem_def enumerate_eq_zip upt_rec)
  from encode_deterministic_pure [OF m, of "py ''Z1''"] z m show ?thesis
    by (simp del: text_to_sequence.simps) metis
qed

text \<open>
  Claim C9. The two sentinels are strings of three characters, so no character of a text
  is one of them: the ID at a position is 0 exactly when the character there is not a
  symbol of the vocabulary, and no ID is the one of the end-of-sequence sentinel, the
  last position of the vocabulary.
\<close>

theorem encode_zero_iff_oov_never_eos:
  "length sym_pad = 3 \<and> length sym_eos = 3 \<and>
   symbol_to_id Processor_init sym_eos = Some (int (length ALL_SYMBOLS) - 1) \<and>
   (\<exists>ids. text_to_sequence Processor_init s = Inr ids \<and>
      (\<forall>i<length s. (ids ! i = 0 \<longleftrightarrow> [s ! i] \<notin> set ALL_SYMBOLS) \<and>
                     ids ! i \<noteq> int (length ALL_SYMBOLS) - 1))"
proof -
  have "length sym_pad = 3" "length sym_eos = 3"
    by (simp_all add: sym_pad_def sym_eos_def py_def)
  then show ?thesis
    by (simp add: id_of_eos length_ALL_SYMBOLS text_to_sequence_init char_id_zero_iff
        char_id_not_eos)
qed

theorem encode_zero_iff_oov_never_eos_witness:
  "\<exists>ids. text_to_sequence Processor_init (py ''Z1'') = Inr ids \<and>
     ids ! 0 \<noteq> 0 \<and> py ''Z'' \<in> set ALL_SYMBOLS \<and>
     ids ! 1 = 0 \<and> py ''1'' \<notin> set ALL_SYMBOLS \<and>
     ids ! 0 \<noteq> 62 \<and> ids ! 1 \<noteq> 62"
proof -
  have l: "(0::nat) < length (py ''Z1'')" "(1::nat) < length (py ''Z1'')"
    by (simp_all add: py_def)
  have m: "[py ''Z1'' ! 0] = py ''Z''" "[py ''Z1'' ! 1] = py ''1''"
    by (simp_all add: py_def)
  have v: "py ''Z'' \<in> set ALL_SYMBOLS" "py ''1'' \<notin> set ALL_SYMBOLS"
    by (simp_all add: vocabulary_defs)
  from encode_zero_iff_oov_never_eos [of "py ''Z1''"]
  obtain ids where r: "text_to_sequence Processor_init (py ''Z1'') = Inr ids"
    and q: "\<forall>i<length (py ''Z1''). (ids ! i = 0 \<longleftrightarrow> [py ''Z1'' ! i] \<notin> set ALL_SYMBOLS) \<and>
                     ids ! i \<noteq> int (length ALL_SYMBOLS) - 1"
    by blast
  from q l m v have "ids ! 0 \<noteq> 0" "ids ! 1 = 0" "ids ! 0 \<noteq> 62" "ids ! 1 \<noteq> 62"
    by (auto simp: length_ALL_SYMBOLS)
  with r v show ?thesis by blast
qed

text \<open>
  Claim C10. The vocabulary has 63 symbols (1 + 1 + 8 + 52 + 1), the end-of-sequence
  sentinel stands at position 62 and has ID 62, and every ID of an encoded text is at
  least 0 and less than 63.
\<close>

theorem vocabulary_size_63:
  "length [sym_pad] = 1 \<and> length (list_str sym_special) = 1 \<and>
   length (list_str sym_punctuation) = 8 \<and> length (list_str sym_letters) = 52 \<and>
   length [sym_eos] = 1 \<and> length ALL_SYMBOLS = 63 \<and>
   ALL_SYMBOLS ! 62 = sym_eos \<and> symbol_to_id Processor_init sym_eos = Some 62 \<and>
   (\<exists>ids. text_to_sequence Processor_init s = Inr ids \<and> (\<forall>x\<in>set ids. 0 \<le> x \<and> x < 63))"
proof -
  have "length (list_str sym_special) = 1" "length (list_str sym_punctuation) = 8"
    "length (list_str sym_letters) = 52"
    by (simp_all add: vocabulary_defs)
  moreover have "\<exists>ids. text_to_sequence Processor_init s = Inr ids \<and>
      (\<forall>x\<in>set ids. 0 \<le> x \<and> x < 63)"
    using char_id_range by (auto simp: text_to_sequence_init)
  ultimately show ?thesis
    by (simp add: length_ALL_SYMBOLS ALL_SYMBOLS_last id_of_eos)
qed

theorem vocabulary_size_63_witness:
  "\<exists>ids. text_to_sequence Processor_init (py ''Z1'') = Inr ids \<and>
     35 \<in> set ids \<and> (0::int) \<le> 35 \<and> (35::int) < 63"
proof -
  from vocabulary_size_63 [of "py ''Z1''"]
  obtain ids where r: "text_to_sequence Processor_init (py ''Z1'') = Inr ids"
    and q: "\<forall>x\<in>set ids. 0 \<le> x \<and> x < 63"
    by blast
  have "text_to_sequence Processor_init (py ''Z1'') = Inr [35, 0]"
    by (simp add: vocabulary_defs Processor_init_def dict_of_enumerate_def symbol_id_def
        dict_get_def dict_getitem_def enumerate_eq_zip upt_rec)
  with r have "35 \<in> set ids" by auto
  with r q show ?thesis by auto
qed

end
